theory Spec2Isabelle
  imports Complex_Main "HOL-Library.Log_Nat"
begin

section \<open>IEEE 754 binary64, the arithmetic of Go's \<open>float64\<close>\<close>

text \<open>
  The package computes with Go's \<open>float64\<close>. A value is a NaN, an infinity with its
  sign, or a finite number \<open>Fin s m e\<close> that stands for \<open>(-1)^s * m * 2^e\<close>
  (\<open>s = True\<close> is the set sign bit, so \<open>Fin True 0 e\<close> is the negative zero).
  All NaNs are one value: the package never looks at a payload.
  Every operation computes the exact real result and rounds it to the nearest
  representable number, ties to the even mantissa, as the hardware does.
\<close>

datatype float64 = NaN | Inf bool | Fin bool nat int

definition pow2 :: "int \<Rightarrow> real" where
  "pow2 e = (if 0 \<le> e then 2 ^ nat e else 1 / 2 ^ nat (- e))"

fun valof :: "float64 \<Rightarrow> real" where
  "valof (Fin s m e) = (if s then - 1 else 1) * real m * pow2 e"
| "valof (Inf s) = 0"
| "valof NaN = 0"

text \<open>\<open>ilog2 a\<close> is the integer \<open>k\<close> with \<open>2^k \<le> a < 2^(k+1)\<close>, for \<open>0 < a\<close>.\<close>

definition ilog2 :: "real \<Rightarrow> int" where
  "ilog2 a = (if 1 \<le> a then bitlen \<lfloor>a\<rfloor> - 1 else - bitlen (\<lceil>1 / a\<rceil> - 1))"

text \<open>Rounding to the nearest integer, ties to even.\<close>

definition rhe :: "real \<Rightarrow> int" where
  "rhe x = (let f = \<lfloor>x\<rfloor>; d = x - of_int f in
     if d < 1 / 2 then f else if 1 / 2 < d then f + 1 else if even f then f else f + 1)"

text \<open>
  Rounding a magnitude \<open>0 < a\<close>: the exponent of the last mantissa bit is
  \<open>ilog2 a - 52\<close>, not below \<open>-1074\<close> (subnormal numbers); the mantissa is \<open>a\<close>
  scaled and rounded; a mantissa that rounds up to \<open>2^53\<close> moves to the next
  exponent; beyond the exponent \<open>971\<close> the result is an infinity.
\<close>

definition round_mag :: "bool \<Rightarrow> real \<Rightarrow> float64" where
  "round_mag s a = (let e = max (ilog2 a - 52) (- 1074); m = rhe (a / pow2 e) in
     if 971 < e then Inf s
     else if m < 2 ^ 53 then Fin s (nat m) e
     else if e = 971 then Inf s else Fin s (2 ^ 52) (e + 1))"

text \<open>\<open>round64 zs r\<close>: the float nearest to \<open>r\<close>; an exact zero gets the sign \<open>zs\<close>.\<close>

definition round64 :: "bool \<Rightarrow> real \<Rightarrow> float64" where
  "round64 zs r = (if r = 0 then Fin zs 0 (- 1074) else round_mag (r < 0) \<bar>r\<bar>)"

text \<open>A numeric constant of the source, converted to \<open>float64\<close>.\<close>

definition f64 :: "real \<Rightarrow> float64" where
  "f64 r = round64 False r"

fun fneg :: "float64 \<Rightarrow> float64" where
  "fneg NaN = NaN"
| "fneg (Inf s) = Inf (\<not> s)"
| "fneg (Fin s m e) = Fin (\<not> s) m e"

text \<open>\<open>math.Abs\<close> clears the sign bit.\<close>

fun fabs :: "float64 \<Rightarrow> float64" where
  "fabs NaN = NaN"
| "fabs (Inf s) = Inf False"
| "fabs (Fin s m e) = Fin False m e"

fun fadd :: "float64 \<Rightarrow> float64 \<Rightarrow> float64" where
  "fadd NaN y = NaN"
| "fadd x NaN = NaN"
| "fadd (Inf s) (Inf t) = (if s = t then Inf s else NaN)"
| "fadd (Inf s) (Fin t n g) = Inf s"
| "fadd (Fin s m e) (Inf t) = Inf t"
| "fadd (Fin s m e) (Fin t n g) =
     round64 (s \<and> t) (valof (Fin s m e) + valof (Fin t n g))"

definition fsub :: "float64 \<Rightarrow> float64 \<Rightarrow> float64" where
  "fsub x y = fadd x (fneg y)"

fun fmul :: "float64 \<Rightarrow> float64 \<Rightarrow> float64" where
  "fmul NaN y = NaN"
| "fmul x NaN = NaN"
| "fmul (Inf s) (Inf t) = Inf (s \<noteq> t)"
| "fmul (Inf s) (Fin t n g) = (if n = 0 then NaN else Inf (s \<noteq> t))"
| "fmul (Fin s m e) (Inf t) = (if m = 0 then NaN else Inf (s \<noteq> t))"
| "fmul (Fin s m e) (Fin t n g) =
     round64 (s \<noteq> t) (valof (Fin s m e) * valof (Fin t n g))"

fun fdiv :: "float64 \<Rightarrow> float64 \<Rightarrow> float64" where
  "fdiv NaN y = NaN"
| "fdiv x NaN = NaN"
| "fdiv (Inf s) (Inf t) = NaN"
| "fdiv (Inf s) (Fin t n g) = Inf (s \<noteq> t)"
| "fdiv (Fin s m e) (Inf t) = Fin (s \<noteq> t) 0 (- 1074)"
| "fdiv (Fin s m e) (Fin t n g) =
     (if n = 0 then (if m = 0 then NaN else Inf (s \<noteq> t))
      else round64 (s \<noteq> t) (valof (Fin s m e) / valof (Fin t n g)))"

text \<open>The comparisons of Go: every comparison with a NaN is false.\<close>

fun flt :: "float64 \<Rightarrow> float64 \<Rightarrow> bool" where
  "flt NaN y = False"
| "flt x NaN = False"
| "flt (Inf s) (Inf t) = (s \<and> \<not> t)"
| "flt (Inf s) (Fin t n g) = s"
| "flt (Fin s m e) (Inf t) = (\<not> t)"
| "flt (Fin s m e) (Fin t n g) = (valof (Fin s m e) < valof (Fin t n g))"

fun fle :: "float64 \<Rightarrow> float64 \<Rightarrow> bool" where
  "fle NaN y = False"
| "fle x NaN = False"
| "fle (Inf s) (Inf t) = (if s then True else \<not> t)"
| "fle (Inf s) (Fin t n g) = s"
| "fle (Fin s m e) (Inf t) = (\<not> t)"
| "fle (Fin s m e) (Fin t n g) = (valof (Fin s m e) \<le> valof (Fin t n g))"

fun feq :: "float64 \<Rightarrow> float64 \<Rightarrow> bool" where
  "feq NaN y = False"
| "feq x NaN = False"
| "feq (Inf s) (Inf t) = (s = t)"
| "feq (Inf s) (Fin t n g) = False"
| "feq (Fin s m e) (Inf t) = False"
| "feq (Fin s m e) (Fin t n g) = (valof (Fin s m e) = valof (Fin t n g))"

fun is_finite :: "float64 \<Rightarrow> bool" where
  "is_finite (Fin s m e) = True"
| "is_finite (Inf s) = False"
| "is_finite NaN = False"

fun is_zero :: "float64 \<Rightarrow> bool" where
  "is_zero (Fin s m e) = (m = 0)"
| "is_zero (Inf s) = False"
| "is_zero NaN = False"

text \<open>A float that is not negative: a NaN, or a number that Go's \<open>0 <= d\<close> accepts.\<close>

definition nonneg_or_nan :: "float64 \<Rightarrow> bool" where
  "nonneg_or_nan d = (d = NaN \<or> fle (f64 0) d)"

section \<open>Package approx\<close>

record Float64 =
  val :: float64
  delta :: float64

definition Value :: "Float64 \<Rightarrow> float64" where
  "Value f = val f"

definition Delta :: "Float64 \<Rightarrow> float64" where
  "Delta f = delta f"

definition Min_f :: "Float64 \<Rightarrow> float64" where
  "Min_f f = fsub (val f) (delta f)"

definition Max_f :: "Float64 \<Rightarrow> float64" where
  "Max_f f = fadd (val f) (delta f)"

definition RelDelta :: "Float64 \<Rightarrow> float64" where
  "RelDelta f = fabs (fdiv (delta f) (val f))"

definition New :: "float64 \<Rightarrow> float64 \<Rightarrow> Float64" where
  "New v d = \<lparr>val = v, delta = fabs d\<rparr>"

definition Add :: "Float64 \<Rightarrow> Float64 \<Rightarrow> Float64" where
  "Add a b = New (fadd (val a) (val b)) (fadd (delta a) (delta b))"

definition Sub :: "Float64 \<Rightarrow> Float64 \<Rightarrow> Float64" where
  "Sub a b = New (fsub (val a) (val b)) (fadd (delta a) (delta b))"

definition Mul :: "Float64 \<Rightarrow> Float64 \<Rightarrow> Float64" where
  "Mul a b =
    (let relA = fabs (fdiv (delta a) (val a));
         relB = fabs (fdiv (delta b) (val b));
         rel = fadd relA relB;
         v = fmul (val a) (val b);
         d = fabs (fmul v rel)
     in New v d)"

text \<open>The method \<open>(f Float64) Mul(c float64)\<close>, the product with a scalar.\<close>

definition Float64_Mul :: "Float64 \<Rightarrow> float64 \<Rightarrow> Float64" where
  "Float64_Mul f c = New (fmul c (val f)) (fabs (fmul c (delta f)))"

definition Div :: "Float64 \<Rightarrow> Float64 \<Rightarrow> Float64" where
  "Div a b =
    (let relA = fabs (fdiv (delta a) (val a));
         relB = fabs (fdiv (delta b) (val b));
         rel = fadd relA relB;
         v = fdiv (val a) (val b);
         d = fabs (fmul v rel)
     in New v d)"

definition Lt :: "Float64 \<Rightarrow> Float64 \<Rightarrow> bool" where
  "Lt f t = flt (fadd (val f) (delta f)) (fsub (val t) (delta t))"

definition Le :: "Float64 \<Rightarrow> Float64 \<Rightarrow> bool" where
  "Le f t = fle (fadd (val f) (delta f)) (fsub (val t) (delta t))"

definition Gt :: "Float64 \<Rightarrow> Float64 \<Rightarrow> bool" where
  "Gt f t = Le t f"

definition Ge :: "Float64 \<Rightarrow> Float64 \<Rightarrow> bool" where
  "Ge f t = Lt t f"

definition Overlap :: "Float64 \<Rightarrow> Float64 \<Rightarrow> bool" where
  "Overlap f t = (\<not> Le f t \<and> \<not> Le t f)"

text \<open>
  The errors of the package are built with \<open>fmt.Errorf\<close>; each constructor stands
  for one message and carries the values the message is formatted from.
\<close>

datatype error =
    ErrMinMax float64 float64
  | ErrExactFloat "nat list list"
  | ErrDeltaFloat "nat list list"
  | ErrApprox "nat list list"

definition NewMinMax :: "float64 \<Rightarrow> float64 \<Rightarrow> error + Float64" where
  "NewMinMax mn mx =
    (if flt mx mn then Inl (ErrMinMax mn mx)
     else
       (let v = fdiv (fadd mn mx) (f64 2);
            d = fabs (fdiv (fsub mx mn) (f64 2))
        in Inr (New v d)))"

subsection \<open>Function values and \<open>Apply\<close>\<close>

text \<open>
  A (non-nil) Go function value of type \<open>func(float64) float64\<close>: the address of
  its code, which is what \<open>%p\<close> prints, and what a call computes. \<open>eqFunc\<close>
  compares the two printed addresses.
\<close>

record gofunc =
  code_ptr :: nat
  call :: "float64 \<Rightarrow> float64"

definition eqFunc :: "gofunc \<Rightarrow> gofunc \<Rightarrow> bool" where
  "eqFunc f1 f2 = (code_ptr f1 = code_ptr f2)"

text \<open>The two functions of package \<open>math\<close> that \<open>Apply\<close> looks for.\<close>

record math_pkg =
  math_Log :: gofunc
  math_Exp :: gofunc

definition applyLog :: "math_pkg \<Rightarrow> Float64 \<Rightarrow> Float64" where
  "applyLog M f =
    (let d = fdiv (delta f) (val f);
         v = call (math_Log M) (val f)
     in New v d)"

definition applyExp :: "math_pkg \<Rightarrow> Float64 \<Rightarrow> Float64" where
  "applyExp M f =
    (let v = call (math_Exp M) (val f);
         d = fmul v (delta f)
     in New v d)"

definition Apply :: "math_pkg \<Rightarrow> Float64 \<Rightarrow> gofunc \<Rightarrow> float64 \<Rightarrow> Float64" where
  "Apply M f fx eps =
    (if eqFunc fx (math_Log M) then applyLog M f
     else if eqFunc fx (math_Exp M) then applyExp M f
     else
       (let fmin = call fx (fsub (val f) eps);
            fmax = call fx (fadd (val f) eps);
            d = fmul (f64 2) eps;
            dfx = fdiv (fsub fmax fmin) d
        in New (call fx (val f)) (fabs (fmul dfx (delta f)))))"

text \<open>
  An instance of package \<open>math\<close> for closed examples: \<open>Log\<close> and \<open>Exp\<close> at two
  different addresses, with the special cases of their documentation and the
  correctly rounded real function elsewhere (the library only promises a close
  approximation there).
\<close>

definition Log_ref :: "float64 \<Rightarrow> float64" where
  "Log_ref x =
    (case x of
       NaN \<Rightarrow> NaN
     | Inf s \<Rightarrow> (if s then NaN else Inf False)
     | Fin s m e \<Rightarrow>
         (if m = 0 then Inf True else if s then NaN else round64 False (ln (valof x))))"

definition Exp_ref :: "float64 \<Rightarrow> float64" where
  "Exp_ref x =
    (case x of
       NaN \<Rightarrow> NaN
     | Inf s \<Rightarrow> (if s then Fin False 0 (- 1074) else Inf False)
     | Fin s m e \<Rightarrow> round64 False (exp (valof x)))"

definition math_ref :: math_pkg where
  "math_ref = \<lparr>math_Log = \<lparr>code_ptr = 1, call = Log_ref\<rparr>,
               math_Exp = \<lparr>code_ptr = 2, call = Exp_ref\<rparr>\<rparr>"

text \<open>The function \<open>x * x\<close> of the package's test, at an address of its own.\<close>

definition square :: gofunc where
  "square = \<lparr>code_ptr = 3, call = (\<lambda>x. fmul x x)\<rparr>"

subsection \<open>Text: \<open>Parse\<close> and \<open>String\<close>\<close>

text \<open>
  A Go string is modelled by the sequence of its runes (code points), which is what
  \<open>strings.Map\<close> walks over. The separator \<open>\<plusminus>\<close> is the one rune U+00B1.
\<close>

definition plus_minus :: nat where
  "plus_minus = 177"

text \<open>\<open>unicode.IsSpace\<close>: the Latin-1 spaces, and beyond Latin-1 the runes of White_Space.\<close>

definition IsSpace :: "nat \<Rightarrow> bool" where
  "IsSpace r =
    (if r \<le> 255 then r \<in> set [9, 10, 11, 12, 13, 32, 133, 160]
     else r \<in> set [5760, 8232, 8233, 8239, 8287, 12288] \<or> (8192 \<le> r \<and> r \<le> 8202))"

text \<open>\<open>strings.Split\<close> for a separator of one rune.\<close>

fun Split :: "nat list \<Rightarrow> nat \<Rightarrow> nat list list" where
  "Split [] sep = [[]]"
| "Split (c # cs) sep =
     (if c = sep then [] # Split cs sep
      else (case Split cs sep of [] \<Rightarrow> [[c]] | w # ws \<Rightarrow> (c # w) # ws))"

text \<open>
  \<open>Parse\<close> and \<open>String\<close> call the standard library for the text of one number:
  \<open>strconv.ParseFloat(s, 64)\<close>, here a function that returns \<open>None\<close> where the
  library returns an error, and the verb \<open>%v\<close> of \<open>fmt.Sprintf\<close>. Both are
  parameters of the model.
\<close>

definition Parse :: "(nat list \<Rightarrow> float64 option) \<Rightarrow> nat list \<Rightarrow> error + Float64" where
  "Parse ParseFloat s =
    (let s' = filter (\<lambda>r. \<not> IsSpace r) s;
         splitstr = Split s' plus_minus
     in case splitstr of
          [x] \<Rightarrow>
            (case ParseFloat x of
               None \<Rightarrow> Inl (ErrExactFloat splitstr)
             | Some v \<Rightarrow> Inr \<lparr>val = v, delta = f64 0\<rparr>)
        | [x, y] \<Rightarrow>
            (case ParseFloat x of
               None \<Rightarrow> Inl (ErrExactFloat splitstr)
             | Some v \<Rightarrow>
                 (case ParseFloat y of
                    None \<Rightarrow> Inl (ErrDeltaFloat splitstr)
                  | Some d \<Rightarrow> Inr \<lparr>val = v, delta = fabs d\<rparr>))
        | _ \<Rightarrow> Inl (ErrApprox splitstr))"

definition String :: "(float64 \<Rightarrow> nat list) \<Rightarrow> Float64 \<Rightarrow> nat list" where
  "String fmtv f = fmtv (val f) @ [plus_minus] @ fmtv (delta f)"

section \<open>Properties\<close>

subsection \<open>Evaluation and basic facts of the arithmetic\<close>

lemmas f64_eval = f64_def round64_def round_mag_def ilog2_def rhe_def pow2_def fsub_def
  compute_bitlen Let_def

lemma f64_0: "f64 0 = Fin False 0 (- 1074)"
  by (simp add: f64_def round64_def)

lemma fabs_idem: "fabs (fabs x) = fabs x"
  by (cases x) simp_all

lemma fabs_eq_NaN: "fabs x = NaN \<longleftrightarrow> x = NaN"
  by (cases x) simp_all

lemma nonneg_fabs: "nonneg_or_nan (fabs x)"
  by (cases x) (simp_all add: nonneg_or_nan_def f64_0 pow2_def)

lemma round64_not_NaN: "round64 z r \<noteq> NaN"
  by (simp add: round64_def round_mag_def Let_def)

lemma round_mag_cases: "round_mag s a = Inf s \<or> (\<exists>m e. round_mag s a = Fin s m e)"
  by (simp add: round_mag_def Let_def)

lemma fabs_round_mag: "fabs (round_mag False a) = round_mag False a"
  using round_mag_cases[of False a] by auto

lemma fabs_fadd:
  assumes "fabs x = x" and "fabs y = y"
  shows "fabs (fadd x y) = fadd x y"
proof (cases x)
  case (Fin s m e)
  note x = this
  show ?thesis
  proof (cases y)
    case (Fin t n g)
    with x assms have st: "s = False" "t = False" by auto
    have "0 \<le> valof x + valof y"
      using x Fin st by (simp add: pow2_def)
    then show ?thesis
      using x Fin st by (simp add: round64_def fabs_round_mag)
  qed (use assms x in auto)
next
  case (Inf s)
  then show ?thesis using assms by (cases y) auto
qed simp

lemma fadd_fabs_Inf: "x \<noteq> NaN \<Longrightarrow> fadd (fabs x) (Inf False) = Inf False"
  by (cases x) simp_all

lemma fadd_NaN_right: "fadd x NaN = NaN"
  by (cases x) simp_all

lemma fmul_NaN_right: "fmul x NaN = NaN"
  by (cases x) simp_all

lemma fdiv_NaN_right: "fdiv x NaN = NaN"
  by (cases x) simp_all

lemma fdiv_zero:
  "fdiv x (Fin t 0 g) = NaN \<and> (x = NaN \<or> is_zero x) \<or>
   (\<exists>u. fdiv x (Fin t 0 g) = Inf u) \<and> x \<noteq> NaN \<and> \<not> is_zero x"
  by (cases x) auto

lemma RelDelta_zero:
  assumes "val b = Fin t 0 g"
  shows "RelDelta b = (if delta b \<noteq> NaN \<and> \<not> is_zero (delta b) then Inf False else NaN)"
  using fdiv_zero [of "delta b" t g] assms by (auto simp: RelDelta_def)

subsection \<open>Arithmetic of approximate numbers\<close>

text \<open>
  C1. For approximate numbers \<open>a\<close> and \<open>b\<close> (their deltas carry no sign, as every
  delta that \<open>New\<close> stores), \<open>Sub a b\<close> has the value \<open>a.val - b.val\<close> and the delta
  \<open>a.delta + b.delta\<close>: the deltas add, as they do in \<open>Add\<close>, although the values
  subtract.
\<close>

theorem Sub_value_delta:
  assumes "fabs (delta a) = delta a" and "fabs (delta b) = delta b"
  shows "val (Sub a b) = fsub (val a) (val b) \<and>
         delta (Sub a b) = fadd (delta a) (delta b) \<and>
         delta (Add a b) = fadd (delta a) (delta b)"
  using assms by (simp add: Sub_def Add_def New_def fabs_fadd)

text \<open>C1, at the operands of the package's test: \<open>(1 \<plusminus> 2) - (3 \<plusminus> 4) = -2 \<plusminus> 6\<close>.\<close>

theorem Sub_value_delta_witness:
  "fabs (delta (New (f64 1) (f64 2))) = delta (New (f64 1) (f64 2)) \<and>
   fabs (delta (New (f64 3) (f64 4))) = delta (New (f64 3) (f64 4)) \<and>
   val (Sub (New (f64 1) (f64 2)) (New (f64 3) (f64 4))) = f64 (- 2) \<and>
   delta (Sub (New (f64 1) (f64 2)) (New (f64 3) (f64 4))) = f64 6"
proof -
  have a: "fabs (delta (New (f64 1) (f64 2))) = delta (New (f64 1) (f64 2))"
    and b: "fabs (delta (New (f64 3) (f64 4))) = delta (New (f64 3) (f64 4))"
    by (simp_all add: New_def fabs_idem)
  have "fsub (val (New (f64 1) (f64 2))) (val (New (f64 3) (f64 4))) = f64 (- 2)"
    and "fadd (delta (New (f64 1) (f64 2))) (delta (New (f64 3) (f64 4))) = f64 6"
    by (simp_all add: New_def f64_eval)
  with Sub_value_delta [OF a b] a b show ?thesis by simp
qed

text \<open>
  C3. \<open>Mul a b\<close> has the value \<open>a.val * b.val\<close> and the delta
  \<open>|value * (|a.delta / a.val| + |b.delta / b.val|)|\<close>: the absolute value of the
  product value times the sum of the two relative errors, for all \<open>a\<close> and \<open>b\<close>.
\<close>

theorem Mul_value_delta:
  "val (Mul a b) = fmul (val a) (val b) \<and>
   delta (Mul a b) = fabs (fmul (val (Mul a b)) (fadd (RelDelta a) (RelDelta b))) \<and>
   RelDelta a = fabs (fdiv (delta a) (val a)) \<and>
   RelDelta b = fabs (fdiv (delta b) (val b))"
  by (simp add: Mul_def New_def RelDelta_def Let_def fabs_idem)

subsection \<open>Ordering and overlap\<close>

text \<open>
  C4. \<open>Lt f t\<close> holds iff \<open>f.Max() < t.Min()\<close>, \<open>Le f t\<close> iff \<open>f.Max() <= t.Min()\<close>,
  \<open>Gt f t\<close> is \<open>Le t f\<close> and \<open>Ge f t\<close> is \<open>Lt t f\<close>.
\<close>

theorem cmp_endpoints:
  "Lt f t = flt (Max_f f) (Min_f t) \<and> Le f t = fle (Max_f f) (Min_f t) \<and>
   Gt f t = Le t f \<and> Ge f t = Lt t f"
  by (simp add: Lt_def Le_def Gt_def Ge_def Max_f_def Min_f_def)

text \<open>
  C5. \<open>Overlap f t\<close> holds iff neither \<open>Le f t\<close> nor \<open>Le t f\<close> does; for
  \<open>f = New(1, 1)\<close> and \<open>t = New(2, 1)\<close> the four comparisons are false and
  \<open>Overlap\<close> is true.
\<close>

theorem Overlap_iff:
  "Overlap f t = (\<not> Le f t \<and> \<not> Le t f) \<and>
   \<not> Lt (New (f64 1) (f64 1)) (New (f64 2) (f64 1)) \<and>
   \<not> Le (New (f64 1) (f64 1)) (New (f64 2) (f64 1)) \<and>
   \<not> Gt (New (f64 1) (f64 1)) (New (f64 2) (f64 1)) \<and>
   \<not> Ge (New (f64 1) (f64 1)) (New (f64 2) (f64 1)) \<and>
   Overlap (New (f64 1) (f64 1)) (New (f64 2) (f64 1))"
proof -
  have "\<not> Lt (New (f64 1) (f64 1)) (New (f64 2) (f64 1))"
    by (simp add: Lt_def New_def f64_eval)
  moreover have "\<not> Le (New (f64 1) (f64 1)) (New (f64 2) (f64 1))"
    by (simp add: Le_def New_def f64_eval)
  moreover have "\<not> Le (New (f64 2) (f64 1)) (New (f64 1) (f64 1))"
    by (simp add: Le_def New_def f64_eval)
  moreover have "\<not> Lt (New (f64 2) (f64 1)) (New (f64 1) (f64 1))"
    by (simp add: Lt_def New_def f64_eval)
  ultimately show ?thesis
    by (simp add: Overlap_def Gt_def Ge_def)
qed

subsection \<open>The sign of the delta\<close>

text \<open>
  C2, as stated, fails: a delta can be a NaN, which is not \<open>>= 0\<close>. \<open>New\<close> stores the
  NaN it is given, and the product of the exact zero \<open>0 \<plusminus> 0\<close> with \<open>1 \<plusminus> 1\<close> has
  the delta \<open>|0 * (|0 / 0| + 1)|\<close>, a NaN.
\<close>

theorem delta_nan_counterexample:
  "\<not> fle (f64 0) (Delta (New (f64 1) NaN)) \<and>
   \<not> fle (f64 0) (Delta (Mul (New (f64 0) (f64 0)) (New (f64 1) (f64 1))))"
  by (simp add: Delta_def Mul_def New_def f64_eval)

text \<open>
  C2, amended. The delta of every \<open>Float64\<close> that a public operation returns (\<open>New\<close>,
  \<open>NewMinMax\<close>, \<open>Parse\<close>, \<open>Add\<close>, \<open>Sub\<close>, \<open>Mul\<close>, \<open>Div\<close>, the scalar \<open>Mul\<close>,
  \<open>Apply\<close>) is never negative: it is a NaN, or \<open>0 <= delta\<close> holds.
\<close>

theorem delta_nonneg_or_nan:
  "nonneg_or_nan (Delta (New v d)) \<and>
   (NewMinMax mn mx = Inr r \<longrightarrow> nonneg_or_nan (Delta r)) \<and>
   (Parse pf s = Inr r' \<longrightarrow> nonneg_or_nan (Delta r')) \<and>
   nonneg_or_nan (Delta (Add a b)) \<and>
   nonneg_or_nan (Delta (Sub a b)) \<and>
   nonneg_or_nan (Delta (Mul a b)) \<and>
   nonneg_or_nan (Delta (Div a b)) \<and>
   nonneg_or_nan (Delta (Float64_Mul a c)) \<and>
   nonneg_or_nan (Delta (Apply M a fx eps))"
proof -
  have new: "\<And>v d. nonneg_or_nan (Delta (New v d))"
    by (simp add: Delta_def New_def nonneg_fabs)
  have "NewMinMax mn mx = Inr r \<longrightarrow> nonneg_or_nan (Delta r)"
    using new by (auto simp: NewMinMax_def Let_def split: if_splits)
  moreover have "Parse pf s = Inr r' \<longrightarrow> nonneg_or_nan (Delta r')"
    using nonneg_fabs [of "f64 0"] nonneg_fabs
    by (auto simp: Parse_def Let_def Delta_def f64_0 split: list.splits option.splits)
  moreover have "nonneg_or_nan (Delta (Apply M a fx eps))"
    using new by (simp add: Apply_def applyLog_def applyExp_def Let_def)
  ultimately show ?thesis
    using new by (simp add: Add_def Sub_def Mul_def Div_def Float64_Mul_def Let_def)
qed

text \<open>
  C2 amended, at \<open>NewMinMax(1, 10) = 5.5 \<plusminus> 4.5\<close> of the package's test and at the
  product with the NaN delta.
\<close>

theorem delta_nonneg_or_nan_witness:
  "NewMinMax (f64 1) (f64 10) = Inr \<lparr>val = f64 (11 / 2), delta = f64 (9 / 2)\<rparr> \<and>
   nonneg_or_nan (Delta \<lparr>val = f64 (11 / 2), delta = f64 (9 / 2)\<rparr>) \<and>
   Delta (Mul (New (f64 0) (f64 0)) (New (f64 1) (f64 1))) = NaN \<and>
   nonneg_or_nan (Delta (Mul (New (f64 0) (f64 0)) (New (f64 1) (f64 1))))"
proof -
  have 1: "NewMinMax (f64 1) (f64 10) = Inr \<lparr>val = f64 (11 / 2), delta = f64 (9 / 2)\<rparr>"
    by (simp add: NewMinMax_def New_def f64_eval)
  have 2: "Delta (Mul (New (f64 0) (f64 0)) (New (f64 1) (f64 1))) = NaN"
    by (simp add: Delta_def Mul_def New_def f64_eval)
  from delta_nonneg_or_nan [of _ _ "f64 1" "f64 10" "\<lparr>val = f64 (11 / 2), delta = f64 (9 / 2)\<rparr>"
      _ _ _ "New (f64 0) (f64 0)" "New (f64 1) (f64 1)"] 1 2
  show ?thesis by simp
qed

subsection \<open>Division by a zero-valued divisor\<close>

text \<open>
  C7, as stated, fails: the divisor \<open>0 \<plusminus> 0\<close> has the relative error \<open>|0 / 0|\<close>, a NaN,
  and the quotient has a NaN delta; and \<open>(0 \<plusminus> 1) / (0 \<plusminus> 1)\<close> has the value \<open>0 / 0\<close>
  and again a NaN delta, although the divisor's relative error is infinite.
\<close>

theorem Div_zero_counterexample:
  "val (New (f64 0) (f64 0)) = Fin False 0 (- 1074) \<and>
   RelDelta (New (f64 0) (f64 0)) = NaN \<and>
   delta (Div (New (f64 1) (f64 0)) (New (f64 0) (f64 0))) = NaN \<and>
   delta (Div (New (f64 0) (f64 1)) (New (f64 0) (f64 1))) = NaN"
  by (simp add: RelDelta_def Div_def New_def f64_eval)

text \<open>
  C7, amended. \<open>Div\<close> returns a result for all operands. When the value of the divisor
  \<open>b\<close> is a zero, the relative error of \<open>b\<close> is \<open>+Inf\<close> if \<open>b.delta\<close> is neither a zero
  nor a NaN, and a NaN otherwise; the delta of the quotient is \<open>+Inf\<close> if moreover the
  relative error of \<open>a\<close> is not a NaN and \<open>a.val\<close> is not a zero, and a NaN in every
  other case.
\<close>

theorem Div_zero_divisor:
  assumes "val b = Fin t 0 g"
  shows "RelDelta b = (if delta b \<noteq> NaN \<and> \<not> is_zero (delta b) then Inf False else NaN) \<and>
    delta (Div a b) =
      (if RelDelta b = Inf False \<and> RelDelta a \<noteq> NaN \<and> \<not> is_zero (val a)
       then Inf False else NaN)"
proof -
  have d: "delta (Div a b) = fabs (fmul (fdiv (val a) (val b)) (fadd (RelDelta a) (RelDelta b)))"
    by (simp add: Div_def New_def Let_def RelDelta_def fabs_idem)
  have rb: "RelDelta b = Inf False \<or> RelDelta b = NaN"
    using RelDelta_zero [OF assms] by presburger
  show ?thesis
  proof (cases "RelDelta b = Inf False \<and> RelDelta a \<noteq> NaN \<and> \<not> is_zero (val a)")
    case True
    then have "val a \<noteq> NaN" by (auto simp: RelDelta_def fdiv_NaN_right)
    with True obtain u where u: "fdiv (val a) (val b) = Inf u"
      using fdiv_zero [of "val a" t g] assms by auto
    have "fadd (RelDelta a) (RelDelta b) = Inf False"
      using True fadd_fabs_Inf [of "fdiv (delta a) (val a)"]
      by (simp add: RelDelta_def fabs_eq_NaN)
    with u d True RelDelta_zero [OF assms] show ?thesis by simp
  next
    case False
    have "fmul (fdiv (val a) (val b)) (fadd (RelDelta a) (RelDelta b)) = NaN"
    proof (cases "RelDelta b = NaN")
      case True
      then show ?thesis by (simp add: fadd_NaN_right fmul_NaN_right)
    next
      case nb: False
      with rb have b: "RelDelta b = Inf False" by simp
      show ?thesis
      proof (cases "RelDelta a = NaN")
        case True
        then show ?thesis by (simp add: fmul_NaN_right)
      next
        case na: False
        with b False have "is_zero (val a)" by simp
        then have "fdiv (val a) (val b) = NaN"
          using fdiv_zero [of "val a" t g] assms by auto
        then show ?thesis by simp
      qed
    qed
    with d False RelDelta_zero [OF assms] show ?thesis by simp
  qed
qed

text \<open>C7 amended, at \<open>(1 \<plusminus> 0) / (0 \<plusminus> 1)\<close>, whose delta is \<open>+Inf\<close>.\<close>

theorem Div_zero_divisor_witness:
  "val (New (f64 0) (f64 1)) = Fin False 0 (- 1074) \<and>
   RelDelta (New (f64 0) (f64 1)) = Inf False \<and>
   delta (Div (New (f64 1) (f64 0)) (New (f64 0) (f64 1))) = Inf False"
proof -
  have v: "val (New (f64 0) (f64 1)) = Fin False 0 (- 1074)"
    by (simp add: New_def f64_eval)
  have 1: "delta (New (f64 0) (f64 1)) \<noteq> NaN \<and> \<not> is_zero (delta (New (f64 0) (f64 1)))"
    by (simp add: New_def f64_eval)
  have 2: "RelDelta (New (f64 1) (f64 0)) \<noteq> NaN \<and> \<not> is_zero (val (New (f64 1) (f64 0)))"
    by (simp add: RelDelta_def New_def f64_eval)
  from Div_zero_divisor [OF v, of "New (f64 1) (f64 0)"] v 1 2 show ?thesis
    by presburger
qed

subsection \<open>Apply\<close>

text \<open>
  C8, as stated, fails: \<open>applyLog\<close> hands \<open>x.delta / x.val\<close> to \<open>New\<close>, which stores its
  absolute value. For \<open>x = -2 \<plusminus> 1\<close> the delta returned is \<open>0.5\<close>, and
  \<open>x.delta / x.val\<close> is \<open>-0.5\<close>.
\<close>

theorem Apply_Log_counterexample:
  "eqFunc (math_Log math_ref) (math_Log math_ref) \<and>
   delta (Apply math_ref (New (f64 (- 2)) (f64 1)) (math_Log math_ref) (f64 (1 / 10 ^ 3))) =
     f64 (1 / 2) \<and>
   fdiv (delta (New (f64 (- 2)) (f64 1))) (val (New (f64 (- 2)) (f64 1))) = f64 (- (1 / 2)) \<and>
   flt (f64 (- (1 / 2))) (f64 (1 / 2))"
  by (simp add: Apply_def applyLog_def eqFunc_def New_def f64_eval)

text \<open>
  C8, amended. When \<open>Apply\<close> recognises its function argument as \<open>math.Log\<close>, it
  returns the value \<open>math.Log(x.val)\<close> and the delta \<open>|x.delta / x.val|\<close>, whatever
  \<open>eps\<close> is: the absolute value is taken, by \<open>New\<close>, as on the general path.
\<close>

theorem Apply_Log:
  assumes "eqFunc fx (math_Log M)"
  shows "val (Apply M x fx eps) = call (math_Log M) (val x) \<and>
    delta (Apply M x fx eps) = fabs (fdiv (delta x) (val x))"
  using assms by (simp add: Apply_def applyLog_def New_def Let_def)

text \<open>C8 amended, at the package's test: the logarithm of \<open>1 \<plusminus> 0.1\<close> is \<open>0 \<plusminus> 0.1\<close>.\<close>

theorem Apply_Log_witness:
  "eqFunc (math_Log math_ref) (math_Log math_ref) \<and>
   val (Apply math_ref (New (f64 1) (f64 (1 / 10))) (math_Log math_ref) (f64 (1 / 10 ^ 3))) = f64 0 \<and>
   delta (Apply math_ref (New (f64 1) (f64 (1 / 10))) (math_Log math_ref) (f64 (1 / 10 ^ 3))) =
     f64 (1 / 10)"
proof -
  have e: "eqFunc (math_Log math_ref) (math_Log math_ref)"
    by (simp add: eqFunc_def)
  have v: "call (math_Log math_ref) (val (New (f64 1) (f64 (1 / 10)))) = f64 0"
    by (simp add: math_ref_def Log_ref_def New_def f64_eval)
  have d: "fabs (fdiv (delta (New (f64 1) (f64 (1 / 10)))) (val (New (f64 1) (f64 (1 / 10))))) =
    f64 (1 / 10)"
    by (simp add: New_def f64_eval)
  from Apply_Log [OF e, of "New (f64 1) (f64 (1 / 10))" "f64 (1 / 10 ^ 3)"] e v d
  show ?thesis by presburger
qed

text \<open>
  C9. For a function \<open>fx\<close> that is neither \<open>math.Log\<close> nor \<open>math.Exp\<close>, every \<open>x\<close>
  and every \<open>eps\<close>, \<open>Apply\<close> returns the value \<open>fx(x.val)\<close> and the delta
  \<open>|((fx(x.val + eps) - fx(x.val - eps)) / (2 * eps)) * x.delta|\<close>.
\<close>

theorem Apply_general:
  assumes "\<not> eqFunc fx (math_Log M)" and "\<not> eqFunc fx (math_Exp M)"
  shows "val (Apply M x fx eps) = call fx (val x) \<and>
    delta (Apply M x fx eps) =
      fabs (fmul (fdiv (fsub (call fx (fadd (val x) eps)) (call fx (fsub (val x) eps)))
                       (fmul (f64 2) eps))
                 (delta x))"
  using assms by (simp add: Apply_def New_def Let_def fabs_idem)

text \<open>
  C9, at the package's test: the square of \<open>10 \<plusminus> 0.1\<close> with \<open>eps = 0.001\<close> is
  \<open>100 \<plusminus> 1.9999999999988916\<close>.
\<close>

theorem Apply_general_witness:
  "\<not> eqFunc square (math_Log math_ref) \<and> \<not> eqFunc square (math_Exp math_ref) \<and>
   val (Apply math_ref (New (f64 10) (f64 (1 / 10))) square (f64 (1 / 10 ^ 3))) = f64 100 \<and>
   delta (Apply math_ref (New (f64 10) (f64 (1 / 10))) square (f64 (1 / 10 ^ 3))) =
     f64 (19999999999988916 / 10 ^ 16)"
proof -
  have n: "\<not> eqFunc square (math_Log math_ref)" "\<not> eqFunc square (math_Exp math_ref)"
    by (simp_all add: eqFunc_def square_def math_ref_def)
  have v: "call square (val (New (f64 10) (f64 (1 / 10)))) = f64 100"
    by (simp add: square_def New_def f64_eval)
  have d: "fabs (fmul (fdiv (fsub
      (call square (fadd (val (New (f64 10) (f64 (1 / 10)))) (f64 (1 / 10 ^ 3))))
      (call square (fsub (val (New (f64 10) (f64 (1 / 10)))) (f64 (1 / 10 ^ 3)))))
      (fmul (f64 2) (f64 (1 / 10 ^ 3))))
      (delta (New (f64 10) (f64 (1 / 10))))) = f64 (19999999999988916 / 10 ^ 16)"
    by (simp add: square_def New_def f64_eval)
  from Apply_general [OF n, of "New (f64 10) (f64 (1 / 10))" "f64 (1 / 10 ^ 3)"] n v d
  show ?thesis by presburger
qed

end
